theory Spec2Isabelle
  imports Complex_Main "HOL-Library.Char_ord" "HOL-Library.List_Lexorder"
begin

section \<open>Python values used by the translation cache\<close>

text \<open>
  A Python \<open>str\<close> is modelled as a \<open>string\<close> whose characters are the code points
  below 256 (ASCII and Latin-1).  On that range \<open>str.isspace\<close>, \<open>str.strip\<close> and the
  regular expression class \<open>\s\<close> agree on twelve characters, and \<open>str.lower\<close> moves
  \<open>A..Z\<close> and the upper-case Latin-1 letters up by 32.
\<close>

datatype py_error = KeyError | IndexError | TypeError | OperationalError | PermissionError

text \<open>
  The values of keyword options: \<open>None\<close>, booleans, integers and strings, the
  values that \<open>json.dumps\<close> prints without a floating-point conversion.
\<close>

datatype pyval = PNone | PBool bool | PInt int | PStr string

type_synonym kwargs = "(string \<times> pyval) list"

definition py_isspace :: "char \<Rightarrow> bool" where
  "py_isspace c = ((of_char c :: nat) \<in> {9, 10, 11, 12, 13, 28, 29, 30, 31, 32, 133, 160})"

definition py_lower_char :: "char \<Rightarrow> char" where
  "py_lower_char c =
     (let n = (of_char c :: nat)
      in if (65 \<le> n \<and> n \<le> 90) \<or> (192 \<le> n \<and> n \<le> 214) \<or> (216 \<le> n \<and> n \<le> 222)
         then char_of (n + 32) else c)"

definition py_lower :: "string \<Rightarrow> string" where
  "py_lower s = map py_lower_char s"

definition py_strip :: "string \<Rightarrow> string" where
  "py_strip s = rev (dropWhile py_isspace (rev (dropWhile py_isspace s)))"

text \<open>\<open>re.sub(r'\s+', ' ', text)\<close>: every maximal run of whitespace becomes one space.\<close>

function re_sub_spaces :: "string \<Rightarrow> string" where
  "re_sub_spaces [] = []"
| "re_sub_spaces (c # cs) =
     (if py_isspace c then CHR '' '' # re_sub_spaces (dropWhile py_isspace cs)
      else c # re_sub_spaces cs)"
  by pat_completeness auto
termination
  by (relation "measure length") (auto simp: length_dropWhile_le less_Suc_eq_le)

text \<open>\<open>sep.join(parts)\<close>.\<close>

fun py_join :: "string \<Rightarrow> string list \<Rightarrow> string" where
  "py_join sep [] = []"
| "py_join sep [x] = x"
| "py_join sep (x # y # ys) = x @ sep @ py_join sep (y # ys)"

text \<open>\<open>p in s\<close> on strings: \<open>p\<close> occurs in \<open>s\<close> as a contiguous substring.\<close>

fun startswith :: "string \<Rightarrow> string \<Rightarrow> bool" where
  "startswith s [] = True"
| "startswith [] (p # ps) = False"
| "startswith (c # cs) (p # ps) = (c = p \<and> startswith cs ps)"

fun py_in :: "string \<Rightarrow> string \<Rightarrow> bool" where
  "py_in p [] = (p = [])"
| "py_in p (c # cs) = (startswith (c # cs) p \<or> py_in p cs)"

text \<open>\<open>s.encode("utf-8")\<close> for code points below 256: one byte below 128, two above.\<close>

definition utf8_char :: "char \<Rightarrow> int list" where
  "utf8_char c =
     (let n = (of_char c :: int)
      in if n < 128 then [n] else [192 + n div 64, 128 + n mod 64])"

definition utf8_encode :: "string \<Rightarrow> int list" where
  "utf8_encode s = concat (map utf8_char s)"

subsection \<open>\<open>json.dumps\<close> on the values that reach it\<close>

definition hex_digit :: "int \<Rightarrow> char" where
  "hex_digit n = (if n < 10 then char_of (48 + n) else char_of (87 + n))"

definition hexdigits :: string where
  "hexdigits = ''0123456789abcdef''"

definition hex_byte :: "int \<Rightarrow> string" where
  "hex_byte b = [hex_digit (b div 16 mod 16), hex_digit (b mod 16)]"

text \<open>
  The encoder's \<open>ensure_ascii\<close> escaping: backslash and the double quote are
  escaped, five control characters have short forms, every other character outside
  space..tilde is written as \<open>\u00XX\<close>.
\<close>

definition json_escape_char :: "char \<Rightarrow> string" where
  "json_escape_char c =
     (let n = (of_char c :: int)
      in if n = 92 then [CHR 0x5C, CHR 0x5C]
         else if n = 34 then [CHR 0x5C, CHR 0x22]
         else if n = 8 then [CHR 0x5C, CHR ''b'']
         else if n = 12 then [CHR 0x5C, CHR ''f'']
         else if n = 10 then [CHR 0x5C, CHR ''n'']
         else if n = 13 then [CHR 0x5C, CHR ''r'']
         else if n = 9 then [CHR 0x5C, CHR ''t'']
         else if 32 \<le> n \<and> n \<le> 126 then [c]
         else [CHR 0x5C, CHR ''u'', CHR ''0'', CHR ''0''] @ hex_byte n)"

definition json_string :: "string \<Rightarrow> string" where
  "json_string s = [CHR 0x22] @ concat (map json_escape_char s) @ [CHR 0x22]"

function decimal :: "nat \<Rightarrow> string" where
  "decimal n = (if n < 10 then [char_of (48 + n)] else decimal (n div 10) @ [char_of (48 + n mod 10)])"
  by pat_completeness auto
termination
  by (relation "measure id") auto

fun json_value :: "pyval \<Rightarrow> string" where
  "json_value PNone = ''null''"
| "json_value (PBool b) = (if b then ''true'' else ''false'')"
| "json_value (PInt i) = (if i < 0 then CHR ''-'' # decimal (nat (- i)) else decimal (nat i))"
| "json_value (PStr s) = json_string s"

text \<open>
  \<open>json.dumps(d, sort_keys=flag)\<close> for a dict of the values above, the dict given
  by its items in insertion order.
\<close>

definition json_dumps :: "bool \<Rightarrow> kwargs \<Rightarrow> string" where
  "json_dumps sort_keys d =
     ''{'' @ py_join '', ''
              (map (\<lambda>(k, v). json_string k @ '': '' @ json_value v)
                   (if sort_keys then sort_key fst d else d))
          @ ''}''"

section \<open>\<open>hashlib.md5(data).hexdigest()\<close>\<close>

text \<open>
  MD5 as in RFC 1321.  A 32-bit word is an \<open>int\<close> kept below \<open>2 ^ 32\<close> by
  \<open>word32\<close>; a byte is an \<open>int\<close> below 256.
\<close>

definition word32 :: "int \<Rightarrow> int" where
  "word32 x = x mod 4294967296"

definition not32 :: "int \<Rightarrow> int" where
  "not32 x = 4294967295 - word32 x"

definition leftrotate :: "int \<Rightarrow> nat \<Rightarrow> int" where
  "leftrotate x c = word32 (x * 2 ^ c) + word32 x div 2 ^ (32 - c)"

definition md5_K :: "int list" where
  "md5_K =
    [3614090360, 3905402710, 606105819, 3250441966, 4118548399, 1200080426, 2821735955, 4249261313,
     1770035416, 2336552879, 4294925233, 2304563134, 1804603682, 4254626195, 2792965006, 1236535329,
     4129170786, 3225465664, 643717713, 3921069994, 3593408605, 38016083, 3634488961, 3889429448,
     568446438, 3275163606, 4107603335, 1163531501, 2850285829, 4243563512, 1735328473, 2368359562,
     4294588738, 2272392833, 1839030562, 4259657740, 2763975236, 1272893353, 4139469664, 3200236656,
     681279174, 3936430074, 3572445317, 76029189, 3654602809, 3873151461, 530742520, 3299628645,
     4096336452, 1126891415, 2878612391, 4237533241, 1700485571, 2399980690, 4293915773, 2240044497,
     1873313359, 4264355552, 2734768916, 1309151649, 4149444226, 3174756917, 718787259, 3951481745]"

definition md5_s :: "nat list" where
  "md5_s =
    [7, 12, 17, 22, 7, 12, 17, 22, 7, 12, 17, 22, 7, 12, 17, 22,
     5, 9, 14, 20, 5, 9, 14, 20, 5, 9, 14, 20, 5, 9, 14, 20,
     4, 11, 16, 23, 4, 11, 16, 23, 4, 11, 16, 23, 4, 11, 16, 23,
     6, 10, 15, 21, 6, 10, 15, 21, 6, 10, 15, 21, 6, 10, 15, 21]"

definition md5_F :: "nat \<Rightarrow> int \<Rightarrow> int \<Rightarrow> int \<Rightarrow> int" where
  "md5_F i b c d =
     (if i < 16 then or (and b c) (and (not32 b) d)
      else if i < 32 then or (and d b) (and (not32 d) c)
      else if i < 48 then xor (xor b c) d
      else xor c (or b (not32 d)))"

definition md5_g :: "nat \<Rightarrow> nat" where
  "md5_g i =
     (if i < 16 then i
      else if i < 32 then (5 * i + 1) mod 16
      else if i < 48 then (3 * i + 5) mod 16
      else (7 * i) mod 16)"

type_synonym md5_state = "int \<times> int \<times> int \<times> int"

fun md5_step :: "int list \<Rightarrow> nat \<Rightarrow> md5_state \<Rightarrow> md5_state" where
  "md5_step M i (a, b, c, d) =
     (let f = word32 (md5_F i b c d + a + md5_K ! i + M ! md5_g i)
      in (d, word32 (b + leftrotate f (md5_s ! i)), b, c))"

fun md5_block :: "md5_state \<Rightarrow> int list \<Rightarrow> md5_state" where
  "md5_block (a0, b0, c0, d0) M =
     (case fold (md5_step M) [0..<64] (a0, b0, c0, d0) of
        (a, b, c, d) \<Rightarrow> (word32 (a0 + a), word32 (b0 + b), word32 (c0 + c), word32 (d0 + d)))"

definition le_bytes :: "nat \<Rightarrow> int \<Rightarrow> int list" where
  "le_bytes n x = map (\<lambda>i. (x div 256 ^ i) mod 256) [0..<n]"

definition le_word :: "int list \<Rightarrow> int" where
  "le_word bs = foldr (\<lambda>b acc. b + 256 * acc) bs 0"

definition md5_pad :: "int list \<Rightarrow> int list" where
  "md5_pad bs = bs @ [128] @ replicate ((119 - length bs mod 64) mod 64) 0
                 @ le_bytes 8 ((8 * int (length bs)) mod 2 ^ 64)"

fun chunks :: "nat \<Rightarrow> nat \<Rightarrow> 'a list \<Rightarrow> 'a list list" where
  "chunks 0 n xs = []"
| "chunks (Suc k) n xs = take n xs # chunks k n (drop n xs)"

definition md5_words :: "int list \<Rightarrow> int list" where
  "md5_words block = map le_word (chunks 16 4 block)"

definition md5_digest :: "int list \<Rightarrow> int list" where
  "md5_digest bs =
     (let p = md5_pad bs;
          blocks = chunks (length p div 64) 64 p
      in case fold (\<lambda>blk st. md5_block st (md5_words blk)) blocks
                (1732584193, 4023233417, 2562383102, 271733878) of
           (a, b, c, d) \<Rightarrow> le_bytes 4 a @ le_bytes 4 b @ le_bytes 4 c @ le_bytes 4 d)"

definition md5_hexdigest :: "int list \<Rightarrow> string" where
  "md5_hexdigest bs = concat (map hex_byte (md5_digest bs))"

section \<open>utils.py\<close>

definition LANGUAGE_NAMES :: "(string \<times> string) list" where
  "LANGUAGE_NAMES =
    [(''en'', ''English''), (''zh'', ''Chinese''), (''ja'', ''Japanese''), (''ko'', ''Korean''),
     (''es'', ''Spanish''), (''fr'', ''French''), (''de'', ''German''), (''it'', ''Italian''),
     (''pt'', ''Portuguese''), (''ru'', ''Russian''), (''ar'', ''Arabic''), (''hi'', ''Hindi''),
     (''th'', ''Thai''), (''vi'', ''Vietnamese''), (''id'', ''Indonesian''), (''nl'', ''Dutch''),
     (''pl'', ''Polish''), (''tr'', ''Turkish''), (''sv'', ''Swedish''), (''da'', ''Danish''),
     (''fi'', ''Finnish''), (''no'', ''Norwegian''), (''cs'', ''Czech''), (''hu'', ''Hungarian''),
     (''ro'', ''Romanian''), (''el'', ''Greek''), (''he'', ''Hebrew''), (''uk'', ''Ukrainian''),
     (''bg'', ''Bulgarian''), (''hr'', ''Croatian''), (''sk'', ''Slovak''), (''sl'', ''Slovenian''),
     (''et'', ''Estonian''), (''lv'', ''Latvian''), (''lt'', ''Lithuanian''), (''mt'', ''Maltese''),
     (''ga'', ''Irish''), (''cy'', ''Welsh''), (''auto'', ''Auto-detect'')]"

definition aliases :: "(string \<times> string) list" where
  "aliases =
    [(''zh-cn'', ''zh''), (''zh-tw'', ''zh''), (''zh-hans'', ''zh''), (''zh-hant'', ''zh''),
     (''en-us'', ''en''), (''en-gb'', ''en'')]"

definition normalize_language_code :: "string \<Rightarrow> string" where
  "normalize_language_code code0 =
     (if code0 = [] then ''auto''
      else let code = py_strip (py_lower code0);
               base_code = takeWhile (\<lambda>c. c \<noteq> CHR ''-'') code
           in if CHR ''-'' \<in> set code \<and> base_code \<in> set (map fst LANGUAGE_NAMES)
              then base_code
              else (case map_of aliases code of Some v \<Rightarrow> v | None \<Rightarrow> code))"

definition preprocess_text :: "string \<Rightarrow> string" where
  "preprocess_text text0 = (if text0 = [] then [] else re_sub_spaces (py_strip text0))"

text \<open>
  \<open>generate_cache_key\<close>: the loop over the three option names that may change a
  translation, the parts joined by a bar, the MD5 of the UTF-8 bytes in hexadecimal.
\<close>

definition relevant_options :: "kwargs \<Rightarrow> kwargs" where
  "relevant_options options =
     concat (map (\<lambda>key. case map_of options key of Some v \<Rightarrow> [(key, v)] | None \<Rightarrow> [])
                 [''formality'', ''domain'', ''preserve_formatting''])"

definition key_parts :: "string \<Rightarrow> string \<Rightarrow> string \<Rightarrow> kwargs \<Rightarrow> string list" where
  "key_parts text0 source_lang target_lang options =
     [preprocess_text text0, normalize_language_code source_lang,
      normalize_language_code target_lang]
     @ (if options \<noteq> [] \<and> relevant_options options \<noteq> []
        then [json_dumps True (relevant_options options)] else [])"

definition key_string :: "string \<Rightarrow> string \<Rightarrow> string \<Rightarrow> kwargs \<Rightarrow> string" where
  "key_string text0 source_lang target_lang options =
     py_join ''|'' (key_parts text0 source_lang target_lang options)"

definition generate_cache_key :: "string \<Rightarrow> string \<Rightarrow> string \<Rightarrow> kwargs \<Rightarrow> string" where
  "generate_cache_key text0 source_lang target_lang options =
     md5_hexdigest (utf8_encode (key_string text0 source_lang target_lang options))"

section \<open>cache.py\<close>

subsection \<open>\<open>CacheStats\<close> and the abstract base class\<close>

record CacheStats =
  total_entries :: int
  hits :: int
  misses :: int
  size_mb :: real

definition CacheStats_init :: CacheStats where
  "CacheStats_init = \<lparr>total_entries = 0, hits = 0, misses = 0, size_mb = 0\<rparr>"

definition hit_rate :: "CacheStats \<Rightarrow> real" where
  "hit_rate s =
     (let total = hits s + misses s
      in if total > 0 then real_of_int (hits s) / real_of_int total else 0)"

text \<open>
  The fields that \<open>TranslationCache.__init__\<close> binds on the instance.  The three
  backends extend this record, as the three classes extend the base class.
\<close>

record TranslationCache =
  max_size :: int
  ttl :: int
  stats :: CacheStats

text \<open>
  \<open>time.time()\<close> is an argument \<open>now\<close> of every operation that reads the clock;
  time stamps are real numbers.
\<close>

definition is_expired :: "'a TranslationCache_scheme \<Rightarrow> real \<Rightarrow> real \<Rightarrow> bool" where
  "is_expired self now timestamp0 = (now - timestamp0 > real_of_int (ttl self))"

definition add_miss :: "'a TranslationCache_scheme \<Rightarrow> 'a TranslationCache_scheme" where
  "add_miss self = self\<lparr>stats := (stats self)\<lparr>misses := misses (stats self) + 1\<rparr>\<rparr>"

definition add_hit :: "'a TranslationCache_scheme \<Rightarrow> 'a TranslationCache_scheme" where
  "add_hit self = self\<lparr>stats := (stats self)\<lparr>hits := hits (stats self) + 1\<rparr>\<rparr>"

definition set_total_entries ::
  "int \<Rightarrow> 'a TranslationCache_scheme \<Rightarrow> 'a TranslationCache_scheme" where
  "set_total_entries n self = self\<lparr>stats := (stats self)\<lparr>total_entries := n\<rparr>\<rparr>"

text \<open>
  A \<open>dict\<close> (and an \<open>OrderedDict\<close>) is the list of its items in insertion order.
  \<open>del d[k]\<close> removes the item, \<open>d[k] = v\<close> replaces the value in place or appends
  a new item, \<open>move_to_end(k)\<close> puts the item last.
\<close>

definition dict_del :: "'k \<Rightarrow> ('k \<times> 'v) list \<Rightarrow> ('k \<times> 'v) list" where
  "dict_del k d = filter (\<lambda>item. fst item \<noteq> k) d"

definition dict_set :: "'k \<Rightarrow> 'v \<Rightarrow> ('k \<times> 'v) list \<Rightarrow> ('k \<times> 'v) list" where
  "dict_set k v d =
     (if map_of d k = None then d @ [(k, v)]
      else map (\<lambda>item. if fst item = k then (k, v) else item) d)"

definition move_to_end :: "'k \<Rightarrow> ('k \<times> 'v) list \<Rightarrow> ('k \<times> 'v) list" where
  "move_to_end k d = (case map_of d k of None \<Rightarrow> d | Some v \<Rightarrow> dict_del k d @ [(k, v)])"

text \<open>
  Attribute lookup.  \<open>obj.stats\<close> looks in the dictionary of the instance before
  the functions of the class, since a function is not a data descriptor.
  \<open>__init__\<close> stores a \<open>CacheStats\<close> object under the name \<open>stats\<close> in the
  instance dictionary, and each class also defines a function of that name.
  Calling a \<open>CacheStats\<close> object raises \<open>TypeError\<close>.
\<close>

datatype 'f attr = Instance_attr CacheStats | Class_function 'f

definition getattr_stats :: "CacheStats option \<Rightarrow> 'f \<Rightarrow> 'f attr" where
  "getattr_stats instance_entry class_stats =
     (case instance_entry of Some s \<Rightarrow> Instance_attr s | None \<Rightarrow> Class_function class_stats)"

definition call_stats ::
  "'a TranslationCache_scheme \<Rightarrow> ('a TranslationCache_scheme \<Rightarrow> 'r) \<Rightarrow> py_error + 'r" where
  "call_stats self class_stats =
     (case getattr_stats (Some (stats self)) class_stats of
        Instance_attr s \<Rightarrow> Inl TypeError
      | Class_function f \<Rightarrow> Inr (f self))"

text \<open>
  The dictionary built by the three \<open>stats\<close> functions, without the size
  estimate \<open>size_mb\<close> and the location: for the memory backend the estimate is the
  length of a JSON text that prints floating point time stamps.
\<close>

record stats_dict =
  d_total_entries :: int
  d_hits :: int
  d_misses :: int
  d_hit_rate :: real
  d_type :: string

subsection \<open>\<open>MemoryCache\<close>\<close>

record MemoryCache = TranslationCache +
  cache :: "(string \<times> (string \<times> real)) list"

definition MemoryCache_init :: "int \<Rightarrow> int \<Rightarrow> MemoryCache" where
  "MemoryCache_init m t = \<lparr>max_size = m, ttl = t, stats = CacheStats_init, cache = []\<rparr>"

definition MemoryCache_get ::
  "MemoryCache \<Rightarrow> real \<Rightarrow> string \<Rightarrow> string \<Rightarrow> string \<Rightarrow> kwargs \<Rightarrow> string option \<times> MemoryCache" where
  "MemoryCache_get self now text0 source_lang0 target_lang0 options =
     (let key = generate_cache_key text0 source_lang0 target_lang0 options
      in case map_of (cache self) key of
           None \<Rightarrow> (None, add_miss self)
         | Some (translated, timestamp0) \<Rightarrow>
             if is_expired self now timestamp0
             then (None, add_miss (self\<lparr>cache := dict_del key (cache self)\<rparr>))
             else (Some translated, add_hit (self\<lparr>cache := move_to_end key (cache self)\<rparr>)))"

text \<open>
  \<open>while len(self._cache) >= self.max_size: self._cache.popitem(last=False)\<close>.
  \<open>popitem\<close> on an empty dictionary raises \<open>KeyError\<close>.
\<close>

fun popitem_loop :: "int \<Rightarrow> 'a list \<Rightarrow> py_error option \<times> 'a list" where
  "popitem_loop m [] = (if 0 \<ge> m then (Some KeyError, []) else (None, []))"
| "popitem_loop m (x # xs) =
     (if int (length (x # xs)) \<ge> m then popitem_loop m xs else (None, x # xs))"

definition MemoryCache_set ::
  "MemoryCache \<Rightarrow> real \<Rightarrow> string \<Rightarrow> string \<Rightarrow> string \<Rightarrow> string \<Rightarrow> kwargs
     \<Rightarrow> py_error option \<times> MemoryCache" where
  "MemoryCache_set self now text0 source_lang0 target_lang0 translated options =
     (let key = generate_cache_key text0 source_lang0 target_lang0 options;
          timestamp0 = now;
          c1 = (if map_of (cache self) key \<noteq> None then dict_del key (cache self) else cache self)
      in case popitem_loop (max_size self) c1 of
           (Some e, c2) \<Rightarrow> (Some e, self\<lparr>cache := c2\<rparr>)
         | (None, c2) \<Rightarrow>
             (let c3 = dict_set key (translated, timestamp0) c2
              in (None, set_total_entries (int (length c3)) (self\<lparr>cache := c3\<rparr>))))"

definition MemoryCache_clear :: "MemoryCache \<Rightarrow> string option \<Rightarrow> int \<times> MemoryCache" where
  "MemoryCache_clear self pattern =
     (case pattern of
        None \<Rightarrow> (int (length (cache self)), set_total_entries 0 (self\<lparr>cache := []\<rparr>))
      | Some p \<Rightarrow>
          (let keys_to_delete = filter (\<lambda>key. py_in p key) (map fst (cache self));
               c1 = fold dict_del keys_to_delete (cache self)
           in (int (length keys_to_delete),
               set_total_entries (int (length c1)) (self\<lparr>cache := c1\<rparr>))))"

definition MemoryCache_stats :: "MemoryCache \<Rightarrow> stats_dict" where
  "MemoryCache_stats self =
     \<lparr>d_total_entries = total_entries (stats self), d_hits = hits (stats self),
      d_misses = misses (stats self), d_hit_rate = hit_rate (stats self), d_type = ''memory''\<rparr>"

subsection \<open>\<open>FileCache\<close>\<close>

text \<open>
  An index entry is a dictionary with up to three keys; an entry read back from
  \<open>index.json\<close> may lack any of them, and the code reads them with \<open>.get\<close> and a
  default.
\<close>

record metadata =
  meta_timestamp :: "real option"
  meta_source_lang :: "string option"
  meta_target_lang :: "string option"

definition get_timestamp :: "metadata \<Rightarrow> real" where
  "get_timestamp md = (case meta_timestamp md of Some t \<Rightarrow> t | None \<Rightarrow> 0)"

definition get_source_lang :: "metadata \<Rightarrow> string" where
  "get_source_lang md = (case meta_source_lang md of Some s \<Rightarrow> s | None \<Rightarrow> [])"

definition get_target_lang :: "metadata \<Rightarrow> string" where
  "get_target_lang md = (case meta_target_lang md of Some s \<Rightarrow> s | None \<Rightarrow> [])"

text \<open>
  The state of the storage medium during a call.  On an \<open>Unwritable\<close> medium
  \<open>open(path, "w")\<close> raises \<open>IOError\<close> before anything is written, while
  \<open>unlink\<close> still works (the files cannot be written, the directory can).  On a
  \<open>Read_only\<close> medium (a read-only directory) \<open>unlink\<close> raises
  \<open>PermissionError\<close> as well.  On either, a statement that changes the database
  raises \<open>sqlite3.OperationalError\<close>.  Reading and \<open>exists\<close> always work.

  \<open>set\<close> is modelled on all three states.  \<open>FileCache_get\<close>,
  \<open>FileCache_clear\<close> and the start-up sweep are the methods on the paths where
  their own \<open>unlink\<close> calls go through, and consult the medium for \<open>_save_index\<close>;
  \<open>FileCache_get_raises\<close> and \<open>FileCache_clear_raises\<close> say when an \<open>unlink\<close>
  of theirs raises instead, and what it leaves.
\<close>

datatype medium = Writable | Unwritable | Read_only

text \<open>
  The cache directory: \<open>index_file\<close> is the index last written to \<open>index.json\<close>
  (\<open>None\<close> when the file is missing or unreadable), \<open>files\<close> maps the name of each
  text file to its contents.
\<close>

record FileCache = TranslationCache +
  index :: "(string \<times> metadata) list"
  index_file :: "(string \<times> metadata) list option"
  files :: "string \<rightharpoonup> string"

definition get_cache_file :: "string \<Rightarrow> string" where
  "get_cache_file key = key @ ''.txt''"

text \<open>
  Files are opened in text mode with the default \<open>newline=None\<close>.  Writing (on
  POSIX, where the line separator is the line feed) stores the string as it is;
  reading translates every \<open>\r\n\<close> and every remaining \<open>\r\<close> to a line feed.
\<close>

fun read_text :: "string \<Rightarrow> string" where
  "read_text [] = []"
| "read_text [c] = [if c = CHR 0x0D then CHR 0x0A else c]"
| "read_text (c # d # cs) =
     (if c = CHR 0x0D \<and> d = CHR 0x0A then CHR 0x0A # read_text cs
      else if c = CHR 0x0D then CHR 0x0A # read_text (d # cs)
      else c # read_text (d # cs))"

definition load_index :: "(string \<times> metadata) list option \<Rightarrow> (string \<times> metadata) list" where
  "load_index on_disk = (case on_disk of None \<Rightarrow> [] | Some d \<Rightarrow> d)"

definition save_index :: "medium \<Rightarrow> FileCache \<Rightarrow> FileCache" where
  "save_index m self =
     (case m of
        Writable \<Rightarrow> self\<lparr>index_file := Some (index self)\<rparr>
      | Unwritable \<Rightarrow> self
      | Read_only \<Rightarrow> self)"

text \<open>\<open>if cache_file.exists(): cache_file.unlink()\<close> followed by \<open>del self._index[key]\<close>.\<close>

definition remove_entry :: "string \<Rightarrow> FileCache \<Rightarrow> FileCache" where
  "remove_entry key self =
     self\<lparr>index := dict_del key (index self),
          files := (files self)(get_cache_file key := None)\<rparr>"

definition FileCache_cleanup_expired :: "medium \<Rightarrow> real \<Rightarrow> FileCache \<Rightarrow> FileCache" where
  "FileCache_cleanup_expired m now self =
     (let expired_keys =
            map fst (filter (\<lambda>item. is_expired self now (get_timestamp (snd item))) (index self));
          s1 = fold remove_entry expired_keys self
      in if expired_keys \<noteq> [] then save_index m s1 else s1)"

definition FileCache_init ::
  "int \<Rightarrow> int \<Rightarrow> medium \<Rightarrow> real \<Rightarrow> (string \<times> metadata) list option \<Rightarrow> (string \<rightharpoonup> string)
     \<Rightarrow> FileCache" where
  "FileCache_init m t med now on_disk dir_files =
     FileCache_cleanup_expired med now
       \<lparr>max_size = m, ttl = t, stats = CacheStats_init,
        index = load_index on_disk, index_file = on_disk, files = dir_files\<rparr>"

definition FileCache_get ::
  "FileCache \<Rightarrow> medium \<Rightarrow> real \<Rightarrow> string \<Rightarrow> string \<Rightarrow> string \<Rightarrow> kwargs
     \<Rightarrow> string option \<times> FileCache" where
  "FileCache_get self m now text0 source_lang0 target_lang0 options =
     (let key = generate_cache_key text0 source_lang0 target_lang0 options
      in case map_of (index self) key of
           None \<Rightarrow> (None, add_miss self)
         | Some md \<Rightarrow>
             if is_expired self now (get_timestamp md)
             then (None, add_miss (save_index m (remove_entry key self)))
             else (case files self (get_cache_file key) of
                     None \<Rightarrow>
                       (None, add_miss (save_index m (self\<lparr>index := dict_del key (index self)\<rparr>)))
                   | Some content \<Rightarrow> (Some (read_text content), add_hit self)))"

text \<open>
  \<open>sorted(self._index.items(), key=...)[0][0]\<close>: the sort is stable, so among equal
  time stamps the item inserted first comes first; on an empty index the subscript
  raises \<open>IndexError\<close>.
\<close>

definition oldest_key :: "(string \<times> metadata) list \<Rightarrow> string option" where
  "oldest_key items =
     (case sort_key (\<lambda>x. get_timestamp (snd x)) items of [] \<Rightarrow> None | x # _ \<Rightarrow> Some (fst x))"

text \<open>
  The eviction step of \<open>FileCache.set\<close>.  It runs before the \<open>try\<close> block, so the
  error of \<open>cache_file.unlink()\<close> on a read-only directory reaches the caller;
  nothing has been changed at that point.  A missing file is not unlinked.
\<close>

definition FileCache_evict :: "medium \<Rightarrow> FileCache \<Rightarrow> py_error + FileCache" where
  "FileCache_evict m self =
     (if int (length (index self)) \<ge> max_size self
      then (case oldest_key (index self) of
              None \<Rightarrow> Inl IndexError
            | Some k \<Rightarrow>
                if files self (get_cache_file k) \<noteq> None \<and> m = Read_only
                then Inl PermissionError
                else Inr (remove_entry k self))
      else Inr self)"

definition FileCache_set ::
  "FileCache \<Rightarrow> medium \<Rightarrow> real \<Rightarrow> string \<Rightarrow> string \<Rightarrow> string \<Rightarrow> string \<Rightarrow> kwargs
     \<Rightarrow> py_error option \<times> FileCache" where
  "FileCache_set self m now text0 source_lang0 target_lang0 translated options =
     (let key = generate_cache_key text0 source_lang0 target_lang0 options;
          timestamp0 = now
      in case FileCache_evict m self of
           Inl e \<Rightarrow> (Some e, self)
         | Inr s1 \<Rightarrow>
             (case m of
                Unwritable \<Rightarrow> (None, s1)
              | Read_only \<Rightarrow> (None, s1)
              | Writable \<Rightarrow>
                  (let s2 = s1\<lparr>index := dict_set key
                                  \<lparr>meta_timestamp = Some timestamp0,
                                   meta_source_lang = Some source_lang0,
                                   meta_target_lang = Some target_lang0\<rparr> (index s1),
                              files := (files s1)(get_cache_file key \<mapsto> translated)\<rparr>;
                       s3 = save_index m s2
                   in (None, set_total_entries (int (length (index s3))) s3))))"

definition FileCache_clear :: "FileCache \<Rightarrow> medium \<Rightarrow> string option \<Rightarrow> int \<times> FileCache" where
  "FileCache_clear self m pattern =
     (case pattern of
        None \<Rightarrow>
          (let s1 = self\<lparr>files := fold (\<lambda>key f. f(get_cache_file key := None))
                                   (map fst (index self)) (files self),
                         index := []\<rparr>
           in (int (length (index self)), set_total_entries 0 (save_index m s1)))
      | Some p \<Rightarrow>
          (let keys_to_delete =
                 map fst (filter (\<lambda>item. py_in p (get_source_lang (snd item))
                                        \<or> py_in p (get_target_lang (snd item))) (index self));
               s1 = fold remove_entry keys_to_delete self;
               s2 = (if keys_to_delete \<noteq> [] then save_index m s1 else s1)
           in (int (length keys_to_delete), set_total_entries (int (length (index s2))) s2)))"

definition FileCache_stats :: "FileCache \<Rightarrow> stats_dict" where
  "FileCache_stats self =
     \<lparr>d_total_entries = total_entries (stats self), d_hits = hits (stats self),
      d_misses = misses (stats self), d_hit_rate = hit_rate (stats self), d_type = ''file''\<rparr>"

subsection \<open>\<open>SQLiteCache\<close>\<close>

text \<open>
  The table \<open>translations\<close> of the database, \<open>rows_of_translations\<close> here, is the list of its rows in rowid order.  \<open>INSERT OR
  REPLACE\<close> deletes the row with the same primary key and appends the new one;
  \<open>ORDER BY timestamp ASC LIMIT 1\<close> takes the row with the least time stamp, the one
  with the least rowid among equals.  Only \<open>set\<close> takes the state of the medium:
  \<open>SQLiteCache_get\<close>, \<open>SQLiteCache_clear\<close> and the start-up sweep are the methods on
  a database that accepts their statements; \<open>SQLiteCache_get_raises\<close> says when the
  \<open>DELETE\<close> of \<open>get\<close> is reached, which raises on any other database, as the
  \<open>DELETE\<close> of \<open>clear\<close> always does there.
\<close>

record row =
  cache_key :: string
  original_text :: string
  translated_text :: string
  source_lang :: string
  target_lang :: string
  timestamp :: real
  options_json :: "string option"

record SQLiteCache = TranslationCache +
  rows_of_translations :: "row list"

definition SQLiteCache_cleanup_expired :: "real \<Rightarrow> SQLiteCache \<Rightarrow> SQLiteCache" where
  "SQLiteCache_cleanup_expired now self =
     (let expired_time = now - real_of_int (ttl self)
      in self\<lparr>rows_of_translations := filter (\<lambda>r. \<not> timestamp r < expired_time) (rows_of_translations self)\<rparr>)"

definition SQLiteCache_init :: "int \<Rightarrow> int \<Rightarrow> real \<Rightarrow> row list \<Rightarrow> SQLiteCache" where
  "SQLiteCache_init m t now on_disk =
     SQLiteCache_cleanup_expired now
       \<lparr>max_size = m, ttl = t, stats = CacheStats_init, rows_of_translations = on_disk\<rparr>"

definition SQLiteCache_get ::
  "SQLiteCache \<Rightarrow> real \<Rightarrow> string \<Rightarrow> string \<Rightarrow> string \<Rightarrow> kwargs \<Rightarrow> string option \<times> SQLiteCache" where
  "SQLiteCache_get self now text0 source_lang0 target_lang0 options =
     (let key = generate_cache_key text0 source_lang0 target_lang0 options
      in case find (\<lambda>r. cache_key r = key) (rows_of_translations self) of
           None \<Rightarrow> (None, add_miss self)
         | Some r \<Rightarrow>
             if is_expired self now (timestamp r)
             then (None, add_miss (self\<lparr>rows_of_translations :=
                                          filter (\<lambda>r. cache_key r \<noteq> key) (rows_of_translations self)\<rparr>))
             else (Some (translated_text r), add_hit self))"

definition delete_oldest :: "row list \<Rightarrow> row list" where
  "delete_oldest rows =
     (case sort_key timestamp rows of
        [] \<Rightarrow> rows
      | r # _ \<Rightarrow> filter (\<lambda>r'. cache_key r' \<noteq> cache_key r) rows)"

definition SQLiteCache_set ::
  "SQLiteCache \<Rightarrow> medium \<Rightarrow> real \<Rightarrow> string \<Rightarrow> string \<Rightarrow> string \<Rightarrow> string \<Rightarrow> kwargs
     \<Rightarrow> py_error option \<times> SQLiteCache" where
  "SQLiteCache_set self m now text0 source_lang0 target_lang0 translated options =
     (let key = generate_cache_key text0 source_lang0 target_lang0 options;
          timestamp0 = now;
          options_json0 = (if options \<noteq> [] then Some (json_dumps False options) else None);
          count = int (length (rows_of_translations self))
      in case m of
           Unwritable \<Rightarrow> (Some OperationalError, self)
         | Read_only \<Rightarrow> (Some OperationalError, self)
         | Writable \<Rightarrow>
             (let t1 = (if count \<ge> max_size self then delete_oldest (rows_of_translations self)
                        else rows_of_translations self);
                  t2 = filter (\<lambda>r. cache_key r \<noteq> key) t1
                       @ [\<lparr>cache_key = key, original_text = text0, translated_text = translated,
                           source_lang = source_lang0, target_lang = target_lang0,
                           timestamp = timestamp0, options_json = options_json0\<rparr>]
              in (None, set_total_entries (count + 1) (self\<lparr>rows_of_translations := t2\<rparr>))))"




definition SQLiteCache_stats :: "SQLiteCache \<Rightarrow> stats_dict" where
  "SQLiteCache_stats self =
     \<lparr>d_total_entries = int (length (rows_of_translations self)), d_hits = hits (stats self),
      d_misses = misses (stats self), d_hit_rate = hit_rate (stats self), d_type = ''sqlite''\<rparr>"

subsection \<open>Sequences of calls\<close>










subsection \<open>Requests to store\<close>




subsection \<open>Stores used in the examples\<close>














section \<open>Key derivation\<close>

lemma relevant_options_Nil: "relevant_options [] = []"
  by (simp add: relevant_options_def)

lemma relevant_options_cong:
  assumes "map_of o1 ''formality'' = map_of o2 ''formality''"
    and "map_of o1 ''domain'' = map_of o2 ''domain''"
    and "map_of o1 ''preserve_formatting'' = map_of o2 ''preserve_formatting''"
  shows "relevant_options o1 = relevant_options o2"
  using assms by (simp add: relevant_options_def)

lemma key_parts_relevant:
  "key_parts t s g opts =
     [preprocess_text t, normalize_language_code s, normalize_language_code g]
     @ (if relevant_options opts \<noteq> [] then [json_dumps True (relevant_options opts)] else [])"
  by (cases "opts = []") (simp_all add: key_parts_def relevant_options_Nil)

text \<open>
  C7.  Two calls of \<open>generate_cache_key\<close> with the same text and languages, whose
  options agree on \<open>formality\<close>, \<open>domain\<close> and \<open>preserve_formatting\<close>, give
  the same key, whatever else the two option dictionaries hold.
\<close>

theorem generate_cache_key_ignores_other_options:
  assumes "map_of o1 ''formality'' = map_of o2 ''formality''"
    and "map_of o1 ''domain'' = map_of o2 ''domain''"
    and "map_of o1 ''preserve_formatting'' = map_of o2 ''preserve_formatting''"
  shows "generate_cache_key t s g o1 = generate_cache_key t s g o2"
proof -
  have "relevant_options o1 = relevant_options o2"
    using assms by (rule relevant_options_cong)
  then have "key_parts t s g o1 = key_parts t s g o2"
    by (simp add: key_parts_relevant)
  then show ?thesis
    by (simp add: generate_cache_key_def key_string_def)
qed

theorem generate_cache_key_ignores_other_options_witness:
  "map_of [(''formality'', PStr ''formal''), (''session'', PInt 7)] ''formality''
     = map_of [(''timeout'', PInt 30), (''formality'', PStr ''formal'')] ''formality''
   \<and> map_of [(''formality'', PStr ''formal''), (''session'', PInt 7)] ''domain''
     = map_of [(''timeout'', PInt 30), (''formality'', PStr ''formal'')] ''domain''
   \<and> map_of [(''formality'', PStr ''formal''), (''session'', PInt 7)] ''preserve_formatting''
     = map_of [(''timeout'', PInt 30), (''formality'', PStr ''formal'')] ''preserve_formatting''
   \<and> generate_cache_key ''hello'' ''en'' ''fr'' [(''formality'', PStr ''formal''), (''session'', PInt 7)]
     = generate_cache_key ''hello'' ''en'' ''fr'' [(''timeout'', PInt 30), (''formality'', PStr ''formal'')]"
proof -
  have f: "map_of [(''formality'', PStr ''formal''), (''session'', PInt 7)] ''formality''
     = map_of [(''timeout'', PInt 30), (''formality'', PStr ''formal'')] ''formality''" by simp
  have d: "map_of [(''formality'', PStr ''formal''), (''session'', PInt 7)] ''domain''
     = map_of [(''timeout'', PInt 30), (''formality'', PStr ''formal'')] ''domain''" by simp
  have p: "map_of [(''formality'', PStr ''formal''), (''session'', PInt 7)] ''preserve_formatting''
     = map_of [(''timeout'', PInt 30), (''formality'', PStr ''formal'')] ''preserve_formatting''" by simp
  from generate_cache_key_ignores_other_options [OF f d p, of "''hello''" "''en''" "''fr''"] f d p
  show ?thesis by blast
qed

text \<open>The keys of three requests, computed once.\<close>

lemma key_hello: "generate_cache_key ''hello'' ''en'' ''fr'' [] = ''8e83d175357bd254a38deea970c15411''"
  by code_simp

lemma key_bye: "generate_cache_key ''bye'' ''en'' ''fr'' [] = ''4712ceb57c473d6fe03e579ac21d3a0f''"
  by code_simp

lemma key_yes: "generate_cache_key ''yes'' ''en'' ''fr'' [] = ''33516df0dd2c84713f3b0a65f6dfacd9''"
  by code_simp

lemma utf8_encode_Cons: "utf8_encode (c # cs) = utf8_char c @ utf8_encode cs"
  by (simp add: utf8_encode_def)

lemma utf8_char_cases:
  "(\<exists>n. utf8_char c = [n] \<and> n < 128 \<and> n = of_char c) \<or>
   (\<exists>a b. utf8_char c = [a, b] \<and> 192 \<le> a \<and> a = 192 + of_char c div 64 \<and> b = 128 + of_char c mod 64)"
  by (auto simp: utf8_char_def Let_def pos_imp_zdiv_nonneg_iff)

lemma utf8_char_inj_append:
  assumes "utf8_char c @ xs = utf8_char d @ ys"
  shows "c = d \<and> xs = ys"
proof -
  have oc: "(of_char c :: int) = of_char d \<Longrightarrow> c = d"
    by (metis of_char_eq_iff)
  from utf8_char_cases [of c] utf8_char_cases [of d] assms show ?thesis
  proof (elim disjE exE conjE)
    fix n m assume "utf8_char c = [n]" "utf8_char d = [m]" "n = of_char c" "m = of_char d"
    with assms oc show ?thesis by simp
  next
    fix n a b assume "utf8_char c = [n]" "n < 128" "utf8_char d = [a, b]" "192 \<le> a"
    with assms show ?thesis by simp
  next
    fix n a b assume "utf8_char d = [n]" "n < 128" "utf8_char c = [a, b]" "192 \<le> a"
    with assms show ?thesis by simp
  next
    fix a b a' b'
    assume c: "utf8_char c = [a, b]" "a = 192 + of_char c div 64" "b = 128 + of_char c mod 64"
      and d: "utf8_char d = [a', b']" "a' = 192 + of_char d div 64" "b' = 128 + of_char d mod 64"
    with assms have "a = a'" "b = b'" "xs = ys" by simp_all
    with c d have "(of_char c :: int) div 64 = of_char d div 64" "(of_char c :: int) mod 64 = of_char d mod 64"
      by simp_all
    then have "(of_char c :: int) = of_char d"
      by (metis mult_div_mod_eq)
    with oc \<open>xs = ys\<close> show ?thesis by simp
  qed
qed

lemma utf8_encode_inj: "utf8_encode s = utf8_encode t \<Longrightarrow> s = t"
proof (induction s arbitrary: t)
  case Nil
  then show ?case
  proof (cases t)
    case (Cons d ds)
    with Nil utf8_char_cases [of d] show ?thesis
      by (auto simp: utf8_encode_Cons utf8_encode_def)
  qed simp
next
  case (Cons c cs)
  show ?case
  proof (cases t)
    case Nil
    with Cons.prems utf8_char_cases [of c] show ?thesis
      by (auto simp: utf8_encode_Cons utf8_encode_def)
  next
    case (Cons d ds)
    with Cons.prems have "utf8_char c @ utf8_encode cs = utf8_char d @ utf8_encode ds"
      by (simp add: utf8_encode_Cons)
    then have "c = d" "utf8_encode cs = utf8_encode ds"
      using utf8_char_inj_append by blast+
    with Cons.IH Cons show ?thesis by simp
  qed
qed

lemma first_separator:
  "c \<notin> set xs \<Longrightarrow> c \<notin> set xs' \<Longrightarrow> xs @ c # ys = xs' @ c # ys' \<Longrightarrow> xs = xs' \<and> ys = ys'"
proof (induction xs arbitrary: xs')
  case Nil
  then show ?case by (cases xs') auto
next
  case (Cons x xs)
  then show ?case by (cases xs') auto
qed

lemma bar_split:
  assumes "u1 @ CHR ''|'' # g1 = u2 @ CHR ''|'' # g2"
    and "CHR ''|'' \<notin> set g1" and "CHR ''|'' \<notin> set g2"
  shows "u1 = u2 \<and> g1 = g2"
proof -
  from assms(1) have "rev (u1 @ CHR ''|'' # g1) = rev (u2 @ CHR ''|'' # g2)" by simp
  then have "rev g1 @ CHR ''|'' # rev u1 = rev g2 @ CHR ''|'' # rev u2" by simp
  moreover have "CHR ''|'' \<notin> set (rev g1)" "CHR ''|'' \<notin> set (rev g2)"
    using assms(2,3) by simp_all
  ultimately have "rev g1 = rev g2 \<and> rev u1 = rev u2"
    by (meson first_separator)
  then show ?thesis by simp
qed

lemma key_string_unfold:
  "key_string t s g opts =
     preprocess_text t @ CHR ''|'' # normalize_language_code s @ CHR ''|'' # normalize_language_code g
     @ (if relevant_options opts \<noteq> [] then CHR ''|'' # json_dumps True (relevant_options opts) else [])"
  by (simp add: key_string_def key_parts_relevant)

text \<open>
  C8, as amended.  When the two requests agree on the three allow-listed options and
  none of the four normalized language codes contains the separator \<open>|\<close>, a
  difference in the normalized text or in a normalized language code makes the byte
  strings handed to MD5 differ.
\<close>

theorem key_string_sensitive:
  assumes opts: "map_of o1 ''formality'' = map_of o2 ''formality''"
      "map_of o1 ''domain'' = map_of o2 ''domain''"
      "map_of o1 ''preserve_formatting'' = map_of o2 ''preserve_formatting''"
    and bars: "CHR ''|'' \<notin> set (normalize_language_code s1)"
      "CHR ''|'' \<notin> set (normalize_language_code g1)"
      "CHR ''|'' \<notin> set (normalize_language_code s2)"
      "CHR ''|'' \<notin> set (normalize_language_code g2)"
    and diff: "preprocess_text t1 \<noteq> preprocess_text t2
               \<or> normalize_language_code s1 \<noteq> normalize_language_code s2
               \<or> normalize_language_code g1 \<noteq> normalize_language_code g2"
  shows "utf8_encode (key_string t1 s1 g1 o1) \<noteq> utf8_encode (key_string t2 s2 g2 o2)"
proof
  assume "utf8_encode (key_string t1 s1 g1 o1) = utf8_encode (key_string t2 s2 g2 o2)"
  then have eq: "key_string t1 s1 g1 o1 = key_string t2 s2 g2 o2"
    by (rule utf8_encode_inj)
  have rel: "relevant_options o1 = relevant_options o2"
    using opts by (rule relevant_options_cong)
  define X where "X = (if relevant_options o2 \<noteq> [] then CHR ''|'' # json_dumps True (relevant_options o2) else [])"
  have "key_string t1 s1 g1 o1
     = (preprocess_text t1 @ CHR ''|'' # normalize_language_code s1 @ CHR ''|'' # normalize_language_code g1) @ X"
    unfolding key_string_unfold X_def rel by simp
  moreover have "key_string t2 s2 g2 o2
     = (preprocess_text t2 @ CHR ''|'' # normalize_language_code s2 @ CHR ''|'' # normalize_language_code g2) @ X"
    unfolding key_string_unfold X_def by simp
  ultimately have
    "(preprocess_text t1 @ CHR ''|'' # normalize_language_code s1 @ CHR ''|'' # normalize_language_code g1) @ X
     = (preprocess_text t2 @ CHR ''|'' # normalize_language_code s2 @ CHR ''|'' # normalize_language_code g2) @ X"
    using eq by simp
  then have "(preprocess_text t1 @ CHR ''|'' # normalize_language_code s1) @ CHR ''|'' # normalize_language_code g1
     = (preprocess_text t2 @ CHR ''|'' # normalize_language_code s2) @ CHR ''|'' # normalize_language_code g2"
    by simp
  from bar_split [OF this bars(2) bars(4)]
  have 1: "preprocess_text t1 @ CHR ''|'' # normalize_language_code s1
           = preprocess_text t2 @ CHR ''|'' # normalize_language_code s2"
    and 2: "normalize_language_code g1 = normalize_language_code g2" by simp_all
  from bar_split [OF 1 bars(1) bars(3)] 2 diff show False by simp
qed

theorem key_string_sensitive_witness:
  "CHR ''|'' \<notin> set (normalize_language_code ''en'')
   \<and> CHR ''|'' \<notin> set (normalize_language_code ''fr'')
   \<and> preprocess_text ''hello'' \<noteq> preprocess_text ''bye''
   \<and> utf8_encode (key_string ''hello'' ''en'' ''fr'' [(''formality'', PStr ''formal'')])
       \<noteq> utf8_encode (key_string ''bye'' ''en'' ''fr'' [(''formality'', PStr ''formal''), (''retries'', PInt 3)])"
proof -
  have s: "CHR ''|'' \<notin> set (normalize_language_code ''en'')" by code_simp
  have g: "CHR ''|'' \<notin> set (normalize_language_code ''fr'')" by code_simp
  have t: "preprocess_text ''hello'' \<noteq> preprocess_text ''bye''" by code_simp
  have f: "map_of [(''formality'', PStr ''formal'')] ''formality''
           = map_of [(''formality'', PStr ''formal''), (''retries'', PInt 3)] ''formality''" by simp
  have d: "map_of [(''formality'', PStr ''formal'')] ''domain''
           = map_of [(''formality'', PStr ''formal''), (''retries'', PInt 3)] ''domain''" by simp
  have p: "map_of [(''formality'', PStr ''formal'')] ''preserve_formatting''
           = map_of [(''formality'', PStr ''formal''), (''retries'', PInt 3)] ''preserve_formatting''"
    by simp
  have "utf8_encode (key_string ''hello'' ''en'' ''fr'' [(''formality'', PStr ''formal'')])
       \<noteq> utf8_encode (key_string ''bye'' ''en'' ''fr'' [(''formality'', PStr ''formal''), (''retries'', PInt 3)])"
    by (rule key_string_sensitive [OF f d p s g s g disjI1 [OF t]])
  with s g t show ?thesis by blast
qed

text \<open>
  C8 fails as stated.  The separator is not escaped: a bar inside the text or a language code moves the
  boundary between the fields, and two requests that differ after normalization are
  hashed from the same string.
\<close>

theorem key_collision_counterexample:
  "preprocess_text ''a|en'' \<noteq> preprocess_text ''a''
   \<and> normalize_language_code ''en'' \<noteq> normalize_language_code ''en|en''
   \<and> generate_cache_key ''a|en'' ''en'' ''fr'' [] = generate_cache_key ''a'' ''en|en'' ''fr'' []"
proof -
  have "preprocess_text ''a|en'' \<noteq> preprocess_text ''a''" by code_simp
  moreover have "normalize_language_code ''en'' \<noteq> normalize_language_code ''en|en''" by code_simp
  moreover have "key_string ''a|en'' ''en'' ''fr'' [] = key_string ''a'' ''en|en'' ''fr'' []"
    by code_simp
  ultimately show ?thesis by (simp add: generate_cache_key_def)
qed

section \<open>Dictionaries and the eviction loop\<close>

lemma map_of_dict_del: "map_of (dict_del k d) k' = (if k' = k then None else map_of d k')"
  by (induction d) (auto simp: dict_del_def)

lemma length_dict_del_le: "length (dict_del k d) \<le> length d"
  by (simp add: dict_del_def)

lemma dict_del_absent: "map_of d k = None \<Longrightarrow> dict_del k d = d"
  by (induction d) (auto simp: dict_del_def split: if_splits)

lemma map_of_dict_set: "map_of (dict_set k v d) k' = (if k' = k then Some v else map_of d k')"
proof (cases "map_of d k = None")
  case True
  then show ?thesis
    by (auto simp: dict_set_def map_add_def split: option.splits)
next
  case False
  have "map_of (map (\<lambda>item. if fst item = k then (k, v) else item) d) k'
        = (if k' = k then (if map_of d k = None then None else Some v) else map_of d k')"
    by (induction d) auto
  with False show ?thesis by (auto simp: dict_set_def)
qed


lemma popitem_loop_error: "fst (popitem_loop m xs) = (if 1 \<le> m then None else Some KeyError)"
  by (induction xs) auto

lemma popitem_loop_result:
  "1 \<le> m \<Longrightarrow> popitem_loop m xs = (None, drop (length xs - (nat m - 1)) xs)"
proof (induction xs)
  case Nil
  then show ?case by simp
next
  case (Cons x xs)
  show ?case
  proof (cases "int (length (x # xs)) \<ge> m")
    case True
    with Cons.prems have "nat m - 1 \<le> length xs" by simp
    then have "length (x # xs) - (nat m - 1) = Suc (length xs - (nat m - 1))"
      by (simp add: Suc_diff_le)
    with True Cons show ?thesis by simp
  next
    case False
    then have "length (x # xs) - (nat m - 1) = 0" by simp
    with False show ?thesis by simp
  qed
qed

section \<open>The memory backend\<close>

text \<open>
  C10.  On a \<open>MemoryCache\<close> whose \<open>max_size\<close> is 0 every \<open>set\<close> raises
  \<open>KeyError\<close>: the loop pops until the dictionary is empty and then pops once more.
  \<open>set\<close> returns normally exactly when \<open>max_size\<close> is at least 1.
\<close>

theorem MemoryCache_set_raises_KeyError:
  "(max_size self = 0 \<longrightarrow>
      fst (MemoryCache_set self now t s g v opts) = Some KeyError)
   \<and> (fst (MemoryCache_set self now t s g v opts) = None \<longleftrightarrow> 1 \<le> max_size self)"
proof -
  have "fst (MemoryCache_set self now t s g v opts)
        = fst (popitem_loop (max_size self)
                 (if map_of (cache self) (generate_cache_key t s g opts) \<noteq> None
                  then dict_del (generate_cache_key t s g opts) (cache self) else cache self))"
    by (simp add: MemoryCache_set_def Let_def split: prod.splits option.splits)
  then show ?thesis
    by (simp add: popitem_loop_error)
qed

theorem MemoryCache_set_raises_KeyError_witness:
  "max_size (MemoryCache_init 0 3600) = 0
   \<and> fst (MemoryCache_set (MemoryCache_init 0 3600) 0 ''hello'' ''en'' ''fr'' ''bonjour'' [])
       = Some KeyError"
  using MemoryCache_set_raises_KeyError
    [of "MemoryCache_init 0 3600" 0 "''hello''" "''en''" "''fr''" "''bonjour''" "[]"]
  by (simp add: MemoryCache_init_def)

lemma map_of_drop_None: "map_of d k = None \<Longrightarrow> map_of (drop n d) k = None"
  by (induction d arbitrary: n) (auto simp: drop_Cons split: nat.splits if_splits)

lemma MemoryCache_set_fields:
  "max_size (snd (MemoryCache_set self now t s g v opts)) = max_size self"
  "ttl (snd (MemoryCache_set self now t s g v opts)) = ttl self"
  by (simp_all add: MemoryCache_set_def Let_def set_total_entries_def split: prod.splits option.splits)

lemma MemoryCache_get_fields:
  "max_size (snd (MemoryCache_get self now t s g opts)) = max_size self"
  "ttl (snd (MemoryCache_get self now t s g opts)) = ttl self"
  by (simp_all add: MemoryCache_get_def Let_def add_miss_def add_hit_def split: prod.splits option.splits)

lemma MemoryCache_set_cache:
  assumes "1 \<le> max_size self"
  shows "cache (snd (MemoryCache_set self now t s g v opts))
         = (let k = generate_cache_key t s g opts; c1 = dict_del k (cache self)
            in drop (length c1 - (nat (max_size self) - 1)) c1 @ [(k, (v, now))])"
proof -
  define k where "k = generate_cache_key t s g opts"
  define c1 where "c1 = dict_del k (cache self)"
  define c2 where "c2 = drop (length c1 - (nat (max_size self) - 1)) c1"
  have c1: "(if map_of (cache self) k \<noteq> None then dict_del k (cache self) else cache self) = c1"
    by (cases "map_of (cache self) k = None") (simp_all add: c1_def dict_del_absent)
  have loop: "popitem_loop (max_size self) c1 = (None, c2)"
    using assms by (simp add: popitem_loop_result c2_def)
  have "map_of c1 k = None" by (simp add: c1_def map_of_dict_del)
  then have "map_of c2 k = None" unfolding c2_def by (rule map_of_drop_None)
  then have "dict_set k (v, now) c2 = c2 @ [(k, (v, now))]"
    by (simp add: dict_set_def)
  with c1 loop have "cache (snd (MemoryCache_set self now t s g v opts)) = c2 @ [(k, (v, now))]"
    unfolding MemoryCache_set_def Let_def k_def [symmetric]
    by (simp add: set_total_entries_def)
  then show ?thesis
    by (simp add: Let_def k_def c1_def c2_def)
qed

text \<open>
  C9.  A \<open>MemoryCache\<close> of capacity 2 receives \<open>set\<close> for key A, \<open>set\<close> for key B,
  \<open>get\<close> for A while A is not expired, and \<open>set\<close> for key C, the three keys distinct.
  The \<open>get\<close> is a hit, and afterwards the cache holds exactly A and C: B was evicted.
\<close>

theorem MemoryCache_lru_order:
  assumes cap: "max_size c0 = 2"
    and keys: "kA = generate_cache_key tA sA gA oA" "kB = generate_cache_key tB sB gB oB"
      "kC = generate_cache_key tC sC gC oC"
    and dist: "kA \<noteq> kB" "kA \<noteq> kC" "kB \<noteq> kC"
    and fresh: "\<not> is_expired c0 now3 now1"
    and c1: "c1 = snd (MemoryCache_set c0 now1 tA sA gA vA oA)"
    and c2: "c2 = snd (MemoryCache_set c1 now2 tB sB gB vB oB)"
    and c3: "c3 = snd (MemoryCache_get c2 now3 tA sA gA oA)"
    and c4: "c4 = snd (MemoryCache_set c3 now4 tC sC gC vC oC)"
  shows "fst (MemoryCache_get c2 now3 tA sA gA oA) = Some vA
         \<and> cache c4 = [(kA, (vA, now1)), (kC, (vC, now4))]
         \<and> map_of (cache c4) kB = None"
proof -
  have m1: "max_size c1 = 2" "ttl c1 = ttl c0"
    by (simp_all add: c1 MemoryCache_set_fields cap)
  have m2: "max_size c2 = 2" "ttl c2 = ttl c0"
    by (simp_all add: c2 MemoryCache_set_fields m1)
  have m3: "max_size c3 = 2"
    by (simp add: c3 MemoryCache_get_fields m2)
  obtain xs where x1: "cache c1 = xs @ [(kA, (vA, now1))]"
    using MemoryCache_set_cache [of c0 now1 tA sA gA vA oA]
    by (simp add: c1 cap keys Let_def)
  have "dict_del kB (cache c1) = dict_del kB xs @ [(kA, (vA, now1))]"
    using dist by (simp add: x1 dict_del_def)
  then have x2: "cache c2 = [(kA, (vA, now1)), (kB, (vB, now2))]"
    using MemoryCache_set_cache [of c1 now2 tB sB gB vB oB]
    by (simp add: c2 m1 keys Let_def)
  have nexp: "\<not> is_expired c2 now3 now1"
    using fresh by (simp add: is_expired_def m2)
  have g: "MemoryCache_get c2 now3 tA sA gA oA
           = (Some vA, add_hit (c2\<lparr>cache := [(kB, (vB, now2)), (kA, (vA, now1))]\<rparr>))"
    using dist nexp
    by (simp add: MemoryCache_get_def Let_def keys [symmetric] x2 move_to_end_def dict_del_def)
  then have x3: "cache c3 = [(kB, (vB, now2)), (kA, (vA, now1))]"
    by (simp add: c3 add_hit_def)
  have "dict_del kC (cache c3) = cache c3"
    using dist by (simp add: x3 dict_del_def)
  then have x4: "cache c4 = [(kA, (vA, now1)), (kC, (vC, now4))]"
    using MemoryCache_set_cache [of c3 now4 tC sC gC vC oC]
    by (simp add: c4 m3 keys Let_def x3)
  from g x4 dist show ?thesis by simp
qed

theorem MemoryCache_lru_order_witness:
  "fst (MemoryCache_get
          (snd (MemoryCache_set
                  (snd (MemoryCache_set (MemoryCache_init 2 3600) 1 ''hello'' ''en'' ''fr'' ''bonjour'' []))
                  2 ''bye'' ''en'' ''fr'' ''au revoir'' []))
          3 ''hello'' ''en'' ''fr'' []) = Some ''bonjour''
   \<and> cache (snd (MemoryCache_set
        (snd (MemoryCache_get
          (snd (MemoryCache_set
                  (snd (MemoryCache_set (MemoryCache_init 2 3600) 1 ''hello'' ''en'' ''fr'' ''bonjour'' []))
                  2 ''bye'' ''en'' ''fr'' ''au revoir'' []))
          3 ''hello'' ''en'' ''fr'' []))
        4 ''yes'' ''en'' ''fr'' ''oui'' []))
     = [(''8e83d175357bd254a38deea970c15411'', (''bonjour'', 1)),
        (''33516df0dd2c84713f3b0a65f6dfacd9'', (''oui'', 4))]"
proof -
  have cap: "max_size (MemoryCache_init 2 3600) = 2"
    by (simp add: MemoryCache_init_def)
  have fresh: "\<not> is_expired (MemoryCache_init 2 3600) 3 1"
    by (simp add: is_expired_def MemoryCache_init_def)
  have d: "''8e83d175357bd254a38deea970c15411'' \<noteq> ''4712ceb57c473d6fe03e579ac21d3a0f''"
    "''8e83d175357bd254a38deea970c15411'' \<noteq> ''33516df0dd2c84713f3b0a65f6dfacd9''"
    "''4712ceb57c473d6fe03e579ac21d3a0f'' \<noteq> ''33516df0dd2c84713f3b0a65f6dfacd9''"
    by simp_all
  from MemoryCache_lru_order [OF cap key_hello [symmetric] key_bye [symmetric] key_yes [symmetric]
      d fresh refl refl refl refl]
  show ?thesis by blast
qed

section \<open>Expiry on \<open>get\<close>\<close>





lemma save_index_fields:
  "index (save_index m fc) = index fc" "files (save_index m fc) = files fc"
  "stats (save_index m fc) = stats fc" "max_size (save_index m fc) = max_size fc"
  "ttl (save_index m fc) = ttl fc"
  by (cases m; simp add: save_index_def)+

lemma remove_entry_fields:
  "index (remove_entry k fc) = dict_del k (index fc)"
  "files (remove_entry k fc) = (files fc)(get_cache_file k := None)"
  "stats (remove_entry k fc) = stats fc" "max_size (remove_entry k fc) = max_size fc"
  "ttl (remove_entry k fc) = ttl fc"
  by (simp_all add: remove_entry_def)




lemma FileCache_init_empty:
  "FileCache_init mx t m now None Map.empty
   = \<lparr>max_size = mx, ttl = t, stats = CacheStats_init, index = [], index_file = None,
      files = Map.empty\<rparr>"
  by (simp add: FileCache_init_def FileCache_cleanup_expired_def load_index_def)






section \<open>\<open>set\<close> followed by \<open>get\<close>\<close>

lemma MemoryCache_set_ok: 
  "fst (MemoryCache_set self now t s g v opts) = (if 1 \<le> max_size self then None else Some KeyError)"
proof -
  have "fst (MemoryCache_set self now t s g v opts)
        = fst (popitem_loop (max_size self)
                 (if map_of (cache self) (generate_cache_key t s g opts) \<noteq> None
                  then dict_del (generate_cache_key t s g opts) (cache self) else cache self))"
    by (simp add: MemoryCache_set_def Let_def split: prod.splits option.splits)
  then show ?thesis
    by (simp add: popitem_loop_error)
qed

lemma MemoryCache_set_get:
  assumes "fst (MemoryCache_set c now t s g v opts) = None"
    and "\<not> is_expired c now' now"
  shows "fst (MemoryCache_get (snd (MemoryCache_set c now t s g v opts)) now' t s g opts) = Some v"
proof -
  let ?c' = "snd (MemoryCache_set c now t s g v opts)"
  let ?k = "generate_cache_key t s g opts"
  from assms(1) have cap: "1 \<le> max_size c"
    by (simp add: MemoryCache_set_ok split: if_splits)
  have "map_of (dict_del ?k (cache c)) ?k = None"
    by (simp add: map_of_dict_del)
  then have "map_of (drop (length (dict_del ?k (cache c)) - (nat (max_size c) - 1))
                      (dict_del ?k (cache c))) ?k = None"
    by (rule map_of_drop_None)
  then have "map_of (cache ?c') ?k = Some (v, now)"
    by (simp add: MemoryCache_set_cache [OF cap] Let_def map_add_def)
  moreover have "\<not> is_expired ?c' now' now"
    using assms(2) by (simp add: is_expired_def MemoryCache_set_fields)
  ultimately show ?thesis
    by (simp add: MemoryCache_get_def Let_def)
qed

lemma FileCache_set_Writable:
  assumes "fst (FileCache_set c Writable now t s g v opts) = None"
  shows "map_of (index (snd (FileCache_set c Writable now t s g v opts))) (generate_cache_key t s g opts)
         = Some \<lparr>meta_timestamp = Some now, meta_source_lang = Some s, meta_target_lang = Some g\<rparr>"
    and "files (snd (FileCache_set c Writable now t s g v opts))
           (get_cache_file (generate_cache_key t s g opts)) = Some v"
    and "ttl (snd (FileCache_set c Writable now t s g v opts)) = ttl c"
  using assms
  by (auto simp: FileCache_set_def Let_def FileCache_evict_def save_index_fields map_of_dict_set
      set_total_entries_def remove_entry_fields split: sum.splits if_splits option.splits)

lemma FileCache_set_get:
  assumes "fst (FileCache_set c Writable now t s g v opts) = None"
    and "\<not> is_expired c now' now"
  shows "fst (FileCache_get (snd (FileCache_set c Writable now t s g v opts)) m now' t s g opts)
         = Some (read_text v)"
proof -
  let ?c' = "snd (FileCache_set c Writable now t s g v opts)"
  note w = FileCache_set_Writable [OF assms(1)]
  have "\<not> is_expired ?c' now' now"
    using assms(2) by (simp add: is_expired_def w)
  with w show ?thesis
    by (simp add: FileCache_get_def Let_def get_timestamp_def)
qed

lemma read_text_no_CR: "CHR 0x0D \<notin> set v \<Longrightarrow> read_text v = v"
  by (induction v rule: read_text.induct) auto

lemma find_filter_append:
  "P r \<Longrightarrow> find P (filter (\<lambda>x. \<not> P x) xs @ [r]) = Some r"
  by (induction xs) auto

lemma SQLiteCache_set_get:
  assumes "fst (SQLiteCache_set c m now t s g v opts) = None"
    and "\<not> is_expired c now' now"
  shows "fst (SQLiteCache_get (snd (SQLiteCache_set c m now t s g v opts)) now' t s g opts) = Some v"
proof -
  let ?k = "generate_cache_key t s g opts"
  from assms(1) have m: "m = Writable"
    by (cases m) (simp_all add: SQLiteCache_set_def Let_def)
  obtain rows r where c': "rows_of_translations (snd (SQLiteCache_set c m now t s g v opts))
        = filter (\<lambda>x. \<not> cache_key x = ?k) rows @ [r]"
    and r: "cache_key r = ?k" "translated_text r = v" "timestamp r = now"
    and t: "ttl (snd (SQLiteCache_set c m now t s g v opts)) = ttl c"
    by (simp add: m SQLiteCache_set_def Let_def set_total_entries_def)
  have "find (\<lambda>x. cache_key x = ?k) (rows_of_translations (snd (SQLiteCache_set c m now t s g v opts)))
        = Some r"
    unfolding c' using r(1) by (rule find_filter_append)
  moreover have "\<not> is_expired (snd (SQLiteCache_set c m now t s g v opts)) now' now"
    using assms(2) by (simp add: is_expired_def t)
  ultimately show ?thesis
    by (simp add: SQLiteCache_get_def Let_def r)
qed

text \<open>
  C1 fails for the file backend.  The translated text is written to a file opened in
  text mode and read back in text mode, so a carriage return does not survive:
  \<open>set\<close> of \<open>bon\r\njour\<close> (a successful write, on an empty store with room for ten
  entries) followed by \<open>get\<close> one second later returns \<open>bon\njour\<close>.
\<close>

theorem FileCache_roundtrip_loses_carriage_return:
  "fst (FileCache_set (FileCache_init 10 3600 Writable 0 None Map.empty) Writable 0
          ''hello'' ''en'' ''fr'' (''bon'' @ [CHR 0x0D, CHR 0x0A] @ ''jour'') []) = None
   \<and> fst (FileCache_get
            (snd (FileCache_set (FileCache_init 10 3600 Writable 0 None Map.empty) Writable 0
                    ''hello'' ''en'' ''fr'' (''bon'' @ [CHR 0x0D, CHR 0x0A] @ ''jour'') []))
            Writable 1 ''hello'' ''en'' ''fr'' [])
       = Some (''bon'' @ [CHR 0x0A] @ ''jour'')
   \<and> ''bon'' @ [CHR 0x0A] @ ''jour'' \<noteq> ''bon'' @ [CHR 0x0D, CHR 0x0A] @ ''jour''"
proof -
  let ?c0 = "FileCache_init 10 3600 Writable 0 None Map.empty"
  let ?v = "''bon'' @ [CHR 0x0D, CHR 0x0A] @ ''jour''"
  have ok: "fst (FileCache_set ?c0 Writable 0 ''hello'' ''en'' ''fr'' ?v []) = None"
    by (simp add: FileCache_set_def FileCache_init_empty FileCache_evict_def Let_def)
  have fresh: "\<not> is_expired ?c0 1 0"
    by (simp add: is_expired_def FileCache_init_empty)
  have "read_text ?v = ''bon'' @ [CHR 0x0A] @ ''jour''"
    by simp
  with FileCache_set_get [OF ok fresh, of Writable] ok show ?thesis
    by simp
qed

section \<open>The capacity bound\<close>


lemma length_fold_dict_del: "length (fold dict_del ks d) \<le> length d"
proof (induction ks arbitrary: d)
  case Nil
  then show ?case by simp
next
  case (Cons k ks)
  have "length (fold dict_del ks (dict_del k d)) \<le> length (dict_del k d)"
    by (rule Cons.IH)
  also have "\<dots> \<le> length d" by (rule length_dict_del_le)
  finally show ?case by simp
qed


















lemma index_fold_remove_entry:
  "index (fold remove_entry ks c) = fold dict_del ks (index c)"
  "max_size (fold remove_entry ks c) = max_size c"
  by (induction ks arbitrary: c) (simp_all add: remove_entry_fields)
























lemma MemoryCache_init_fields:
  "max_size (MemoryCache_init m t) = m" "ttl (MemoryCache_init m t) = t"
  "cache (MemoryCache_init m t) = []"
  by (simp_all add: MemoryCache_init_def)

text \<open>
  Opening a store removes expired entries and nothing else: a store opened on a
  directory or a database with at most \<open>max_size\<close> entries starts within its bound.
\<close>

lemma FileCache_init_length:
  "length (index (FileCache_init m t med now on_disk dir_files)) \<le> length (load_index on_disk)"
  "max_size (FileCache_init m t med now on_disk dir_files) = m"
  by (simp_all add: FileCache_init_def FileCache_cleanup_expired_def Let_def save_index_fields
      index_fold_remove_entry length_fold_dict_del)

lemma SQLiteCache_init_length:
  "length (rows_of_translations (SQLiteCache_init m t now on_disk)) \<le> length on_disk"
  "max_size (SQLiteCache_init m t now on_disk) = m"
  by (simp_all add: SQLiteCache_init_def SQLiteCache_cleanup_expired_def Let_def)



















section \<open>\<open>clear\<close> with a pattern\<close>

lemma hex_digit_table: "map hex_digit [0..15] = hexdigits"
  by code_simp

lemma hex_digit_range:
  assumes "0 \<le> n" and "n < 16"
  shows "hex_digit n \<in> set hexdigits"
proof -
  from assms have "n \<in> set [0..15]" by simp
  then have "hex_digit n \<in> hex_digit ` set [0..15]" by (rule imageI)
  then have "hex_digit n \<in> set (map hex_digit [0..15])" by simp
  then show ?thesis
    by (simp only: hex_digit_table)
qed

lemma hex_byte_hex: "c \<in> set (hex_byte b) \<Longrightarrow> c \<in> set hexdigits"
proof -
  assume c: "c \<in> set (hex_byte b)"
  have 1: "0 \<le> b div 16 mod 16" "b div 16 mod 16 < 16" by simp_all
  have 2: "0 \<le> b mod 16" "b mod 16 < 16" by simp_all
  from c have "c = hex_digit (b div 16 mod 16) \<or> c = hex_digit (b mod 16)"
    by (simp add: hex_byte_def)
  with hex_digit_range [OF 1] hex_digit_range [OF 2] show ?thesis by blast
qed

lemma md5_hexdigest_hex: "c \<in> set (md5_hexdigest bs) \<Longrightarrow> c \<in> set hexdigits"
  unfolding md5_hexdigest_def using hex_byte_hex by auto

lemma startswith_set: "startswith s p \<Longrightarrow> set p \<subseteq> set s"
  by (induction s p rule: startswith.induct) auto

lemma py_in_set: "py_in p s \<Longrightarrow> set p \<subseteq> set s"
proof (induction s)
  case Nil
  then show ?case by simp
next
  case (Cons c cs)
  then show ?case
    using startswith_set [of "c # cs" p] by auto
qed

lemma key_not_zh: "\<not> py_in ''zh'' (generate_cache_key t s g opts)"
proof
  assume "py_in ''zh'' (generate_cache_key t s g opts)"
  then have "set ''zh'' \<subseteq> set (generate_cache_key t s g opts)" by (rule py_in_set)
  then have "CHR ''z'' \<in> set (generate_cache_key t s g opts)" by simp
  then have "CHR ''z'' \<in> set hexdigits"
    unfolding generate_cache_key_def by (rule md5_hexdigest_hex)
  then show False by (simp add: hexdigits_def)
qed

text \<open>
  C5 fails for the memory backend.  \<open>MemoryCache.clear\<close> looks for the pattern in
  the cache key, a string of hexadecimal digits, and keeps no language with the
  entry: after \<open>set\<close> of a translation into \<open>zh\<close>, \<open>clear("zh")\<close> removes nothing
  and returns 0.  The file backend, given the same two calls, removes the entry
  and returns 1.
\<close>

theorem MemoryCache_clear_matches_key:
  "fst (MemoryCache_clear
          (snd (MemoryCache_set (MemoryCache_init 10 3600) 0 ''hello'' ''en'' ''zh'' ''nihao'' []))
          (Some ''zh'')) = 0
   \<and> cache (snd (MemoryCache_clear
          (snd (MemoryCache_set (MemoryCache_init 10 3600) 0 ''hello'' ''en'' ''zh'' ''nihao'' []))
          (Some ''zh'')))
       = [(generate_cache_key ''hello'' ''en'' ''zh'' [], (''nihao'', 0))]
   \<and> py_in ''zh'' ''zh''
   \<and> fst (FileCache_clear
          (snd (FileCache_set (FileCache_init 10 3600 Writable 0 None Map.empty) Writable 0
                  ''hello'' ''en'' ''zh'' ''nihao'' []))
          Writable (Some ''zh'')) = 1
   \<and> index (snd (FileCache_clear
          (snd (FileCache_set (FileCache_init 10 3600 Writable 0 None Map.empty) Writable 0
                  ''hello'' ''en'' ''zh'' ''nihao'' []))
          Writable (Some ''zh''))) = []"
proof -
  let ?k = "generate_cache_key ''hello'' ''en'' ''zh'' []"
  let ?mc = "snd (MemoryCache_set (MemoryCache_init 10 3600) 0 ''hello'' ''en'' ''zh'' ''nihao'' [])"
  let ?fc = "snd (FileCache_set (FileCache_init 10 3600 Writable 0 None Map.empty) Writable 0
                  ''hello'' ''en'' ''zh'' ''nihao'' [])"
  have mc: "cache ?mc = [(?k, (''nihao'', 0))]"
    by (simp add: MemoryCache_set_def MemoryCache_init_def Let_def dict_set_def
        set_total_entries_def)
  have nz: "\<not> py_in ''zh'' ?k" by (rule key_not_zh)
  have m: "fst (MemoryCache_clear ?mc (Some ''zh'')) = 0"
    "cache (snd (MemoryCache_clear ?mc (Some ''zh''))) = [(?k, (''nihao'', 0))]"
    using nz by (simp_all add: MemoryCache_clear_def Let_def mc set_total_entries_def)
  have fc: "index ?fc = [(?k, \<lparr>meta_timestamp = Some 0, meta_source_lang = Some ''en'',
                               meta_target_lang = Some ''zh''\<rparr>)]"
    by (simp add: FileCache_set_def FileCache_init_empty FileCache_evict_def
      Let_def dict_set_def set_total_entries_def save_index_def)
  have z: "py_in ''zh'' ''zh''" by simp
  have f: "fst (FileCache_clear ?fc Writable (Some ''zh'')) = 1"
    "index (snd (FileCache_clear ?fc Writable (Some ''zh''))) = []"
    using z by (simp_all add: FileCache_clear_def Let_def fc set_total_entries_def
        get_source_lang_def get_target_lang_def save_index_fields remove_entry_fields dict_del_def)
  from m f z show ?thesis by blast
qed

section \<open>Calling \<open>stats\<close>\<close>

text \<open>
  C2 fails: on an instance of any backend \<open>stats\<close> names the \<open>CacheStats\<close> object
  that \<open>__init__\<close> stored, not the function of the class, and the call raises
  \<open>TypeError\<close>.
\<close>

theorem stats_call_raises_TypeError:
  "call_stats (MemoryCache_init 10000 86400) MemoryCache_stats = Inl TypeError
   \<and> call_stats (FileCache_init 10000 86400 Writable 0 None Map.empty) FileCache_stats
       = Inl TypeError
   \<and> call_stats (SQLiteCache_init 100000 86400 0 []) SQLiteCache_stats = Inl TypeError"
  by (simp add: call_stats_def getattr_stats_def)

section \<open>\<open>set\<close> on an unwritable medium\<close>






end
